theory Spec2Isabelle
  imports Main
begin

section \<open>Values, channel endpoints and callbacks\<close>

text \<open>
  Payloads have the TypeScript type \<open>unknown\<close>. The bridge never inspects them except
  for one strict comparison with a string, so a small universe of JavaScript values is
  enough: primitives, plain objects (by their fields) and functions (by reference).
  Numbers are carried opaque; no arithmetic is done on them.
\<close>

datatype jsvalue =
    JUndefined
  | JNull
  | JBool bool
  | JNum int
  | JStr string
  | JObj "(string \<times> jsvalue) list"
  | JFun nat

text \<open>
  A \<open>MessagePort\<close> and a \<open>MessageCallback\<close> are opaque references; two of them are the
  same exactly when they are the same reference.
\<close>

type_synonym MessagePort = nat
type_synonym MessageCallback = nat

text \<open>
  \<open>postMessage\<close> serialises its argument with the structured clone algorithm, which
  rejects functions (also nested in an object) with a \<open>DataCloneError\<close>.
\<close>

fun cloneable :: "jsvalue \<Rightarrow> bool" where
  "cloneable (JFun f) = False"
| "cloneable (JObj kvs) = list_all (\<lambda>kv. cloneable (snd kv)) kvs"
| "cloneable v = True"

datatype js_exception = DataCloneError | UserException jsvalue

text \<open>How a method call ends: it returns a value, or an exception leaves it.\<close>

datatype 'r completion = Returned 'r | Threw js_exception

section \<open>Observable effects\<close>

text \<open>
  The diagnostics of the source are fixed texts (some with interpolated data); each is a
  constructor here, in the order in which the source file contains them.
\<close>

datatype LogMessage =
    LogInit
  | LogWindowMessage jsvalue nat
  | LogCheckCapture jsvalue bool nat
  | LogPortCaptured
  | LogConfirmationSent string
  | LogNotCapture
  | LogMessageReceived jsvalue
  | LogSendAttempt jsvalue bool
  | LogSending
  | LogSubscriberAdded nat
  | LogSubscriberRemoved nat
  | LogDisconnected

datatype WarnMessage =
    WarnNoWindow
  | WarnPortNotInitialized
  | WarnPossibleReasons
  | WarnReasonNoPortYet
  | WarnReasonWrongFormat
  | WarnReasonTiming

datatype WindowListener = CapturePortListener | DebugListener

datatype effect =
    ConsoleLog LogMessage
  | ConsoleWarn WarnMessage
  | AddEventListener WindowListener
  | PortSetOnMessage MessagePort
  | PortPostMessage MessagePort jsvalue
  | PortClose MessagePort
  | CallbackInvoked MessageCallback jsvalue

section \<open>The JavaScript Set\<close>

text \<open>
  A \<open>Set\<close> holds each element once and iterates in insertion order: a list without
  repetitions. \<open>add\<close> of a member changes nothing, \<open>add\<close> of a new element appends it.
\<close>

typedef 'a JSSet = "{xs :: 'a list. distinct xs}"
  morphisms entries Abs_JSSet
  by (rule exI [of _ "[]"]) simp

setup_lifting type_definition_JSSet

lift_definition set_new :: "'a JSSet" is "[]"
  by simp

lift_definition set_add :: "'a \<Rightarrow> 'a JSSet \<Rightarrow> 'a JSSet"
  is "\<lambda>x xs. if x \<in> set xs then xs else xs @ [x]"
  by simp

lift_definition set_delete :: "'a \<Rightarrow> 'a JSSet \<Rightarrow> 'a JSSet"
  is "\<lambda>x xs. removeAll x xs"
  by (simp add: distinct_removeAll)

lift_definition set_size :: "'a JSSet \<Rightarrow> nat" is length .

definition set_clear :: "'a JSSet \<Rightarrow> 'a JSSet" where
  "set_clear s = set_new"

section \<open>The bridge\<close>

record FlutterBridgeOptions =
  debug :: bool
  captureCommand :: string
  confirmationMessage :: string

record ConnectionStatus =
  hasPort :: bool
  subscribersCount :: nat

record FlutterBridge =
  port :: "MessagePort option"
  subscribers :: "MessageCallback JSSet"
  options :: FlutterBridgeOptions

text \<open>
  A \<open>MessageEvent\<close>, with the two fields the bridge reads. The source guards every read
  of \<open>event.ports\<close> against a missing array, so the field is optional here.
\<close>

record MessageEvent =
  data :: jsvalue
  ports :: "MessagePort list option"

text \<open>
  The result of a method call: how it ended, the bridge afterwards, and the effects it
  had on the console, the window, the ports and the callbacks, in order. An exception
  does not roll anything back: the bridge and the effects are those reached when it was
  thrown.
\<close>

record 'r outcome =
  completion :: "'r completion"
  bridge :: FlutterBridge
  effects :: "effect list"

subsection \<open>Diagnostics\<close>

definition log :: "FlutterBridge \<Rightarrow> LogMessage \<Rightarrow> effect list" where
  "log b m = (if debug (options b) then [ConsoleLog m] else [])"

definition warn :: "FlutterBridge \<Rightarrow> WarnMessage \<Rightarrow> effect list" where
  "warn b m = [ConsoleWarn m]"

subsection \<open>Port operations\<close>

definition postMessage :: "MessagePort \<Rightarrow> jsvalue \<Rightarrow> effect list \<times> js_exception option" where
  "postMessage p v =
     (if cloneable v then ([PortPostMessage p v], None) else ([], Some DataCloneError))"

subsection \<open>Construction\<close>

text \<open>
  The constructor's argument has three optional fields; a field that is absent takes its
  default. \<open>has_window\<close> says whether the global \<open>window\<close> exists.
\<close>

record FlutterBridgeOptionsArg =
  debug_arg :: "bool option"
  captureCommand_arg :: "string option"
  confirmationMessage_arg :: "string option"

definition merge_options :: "FlutterBridgeOptionsArg \<Rightarrow> FlutterBridgeOptions" where
  "merge_options a =
     \<lparr> debug = (case debug_arg a of None \<Rightarrow> False | Some d \<Rightarrow> d),
       captureCommand =
         (case captureCommand_arg a of None \<Rightarrow> ''capturePort'' | Some c \<Rightarrow> c),
       confirmationMessage =
         (case confirmationMessage_arg a of None \<Rightarrow> ''portReceived'' | Some c \<Rightarrow> c) \<rparr>"

definition constructor :: "bool \<Rightarrow> FlutterBridgeOptionsArg \<Rightarrow> unit outcome" where
  "constructor has_window a =
     (let b = \<lparr> port = None, subscribers = set_new, options = merge_options a \<rparr> in
      if has_window then
        \<lparr> completion = Returned (), bridge = b,
          effects = log b LogInit @ [AddEventListener CapturePortListener] @
            (if debug (options b) then [AddEventListener DebugListener] else []) \<rparr>
      else
        \<lparr> completion = Returned (), bridge = b, effects = warn b WarnNoWindow \<rparr>)"

text \<open>The exported singleton: \<open>new FlutterBridge({ debug: false })\<close>.\<close>

definition flutterBridge :: FlutterBridge where
  "flutterBridge =
     bridge (constructor True
       \<lparr> debug_arg = Some False, captureCommand_arg = None, confirmationMessage_arg = None \<rparr>)"

subsection \<open>capturePort\<close>

definition portsCount :: "MessageEvent \<Rightarrow> nat" where
  "portsCount ev = (case ports ev of None \<Rightarrow> 0 | Some ps \<Rightarrow> length ps)"

definition capturePort :: "FlutterBridge \<Rightarrow> MessageEvent \<Rightarrow> unit outcome" where
  "capturePort b ev =
     (let e1 = (if debug (options b)
                then log b (LogCheckCapture (data ev) (0 < portsCount ev) (portsCount ev))
                else []);
          ignored = \<lparr> completion = Returned (), bridge = b,
                      effects = e1 @ (if debug (options b) then log b LogNotCapture else []) \<rparr>
      in
      if data ev = JStr (captureCommand (options b)) then
        (case ports ev of
           Some (p # ps) \<Rightarrow>
             (let e2 = log b LogPortCaptured;
                  b' = b\<lparr>port := Some p\<rparr>;
                  e3 = [PortSetOnMessage p]
              in case postMessage p (JStr (confirmationMessage (options b'))) of
                   (e4, Some x) \<Rightarrow>
                     \<lparr> completion = Threw x, bridge = b', effects = e1 @ e2 @ e3 @ e4 \<rparr>
                 | (e4, None) \<Rightarrow>
                     \<lparr> completion = Returned (), bridge = b',
                       effects = e1 @ e2 @ e3 @ e4 @
                         log b' (LogConfirmationSent (confirmationMessage (options b'))) \<rparr>)
         | _ \<Rightarrow> ignored)
      else ignored)"

text \<open>The second listener, which the constructor registers in debug mode: it only logs.\<close>

definition debugListener :: "FlutterBridge \<Rightarrow> MessageEvent \<Rightarrow> unit outcome" where
  "debugListener b ev =
     \<lparr> completion = Returned (), bridge = b,
       effects = log b (LogWindowMessage (data ev) (portsCount ev)) \<rparr>"

subsection \<open>sendMessage\<close>

definition sendMessage :: "FlutterBridge \<Rightarrow> jsvalue \<Rightarrow> unit outcome" where
  "sendMessage b v =
     (let e1 = (if debug (options b) then log b (LogSendAttempt v (port b \<noteq> None)) else [])
      in
      case port b of
        Some p \<Rightarrow>
          (let e2 = log b LogSending in
           case postMessage p v of
             (e3, Some x) \<Rightarrow> \<lparr> completion = Threw x, bridge = b, effects = e1 @ e2 @ e3 \<rparr>
           | (e3, None) \<Rightarrow>
               \<lparr> completion = Returned (), bridge = b, effects = e1 @ e2 @ e3 \<rparr>)
      | None \<Rightarrow>
          \<lparr> completion = Returned (), bridge = b,
            effects = e1 @ warn b WarnPortNotInitialized @
              (if debug (options b)
               then warn b WarnPossibleReasons @ warn b WarnReasonNoPortYet @
                    warn b WarnReasonWrongFormat @ warn b WarnReasonTiming
               else []) \<rparr>)"

subsection \<open>subscribe and the capability it returns\<close>

text \<open>
  \<open>subscribe\<close> returns a closure over its argument. A closure is represented by what it
  captured; \<open>unsubscribe\<close> is its body.
\<close>

datatype Unsubscribe = Unsubscribe MessageCallback

definition subscribe :: "FlutterBridge \<Rightarrow> MessageCallback \<Rightarrow> Unsubscribe outcome" where
  "subscribe b callback =
     (let b' = b\<lparr>subscribers := set_add callback (subscribers b)\<rparr> in
      \<lparr> completion = Returned (Unsubscribe callback), bridge = b',
        effects = log b' (LogSubscriberAdded (set_size (subscribers b'))) \<rparr>)"

fun unsubscribe :: "Unsubscribe \<Rightarrow> FlutterBridge \<Rightarrow> unit outcome" where
  "unsubscribe (Unsubscribe callback) b =
     (let b' = b\<lparr>subscribers := set_delete callback (subscribers b)\<rparr> in
      \<lparr> completion = Returned (), bridge = b',
        effects = log b' (LogSubscriberRemoved (set_size (subscribers b'))) \<rparr>)"

subsection \<open>Status\<close>

definition getConnectionStatus :: "FlutterBridge \<Rightarrow> ConnectionStatus outcome" where
  "getConnectionStatus b =
     \<lparr> completion =
         Returned \<lparr> hasPort = (port b \<noteq> None), subscribersCount = set_size (subscribers b) \<rparr>,
       bridge = b, effects = [] \<rparr>"

definition isConnected :: "FlutterBridge \<Rightarrow> bool outcome" where
  "isConnected b = \<lparr> completion = Returned (port b \<noteq> None), bridge = b, effects = [] \<rparr>"

subsection \<open>disconnect\<close>

definition disconnect :: "FlutterBridge \<Rightarrow> unit outcome" where
  "disconnect b =
     (let (b1, e1) = (case port b of
                        Some p \<Rightarrow> (b\<lparr>port := None\<rparr>, [PortClose p])
                      | None \<Rightarrow> (b, []));
          b2 = b1\<lparr>subscribers := set_clear (subscribers b1)\<rparr>
      in \<lparr> completion = Returned (), bridge = b2, effects = e1 @ log b2 LogDisconnected \<rparr>)"

subsection \<open>Reading a trace\<close>

text \<open>The sends, the closes and the callback invocations among a list of effects.\<close>

fun is_console :: "effect \<Rightarrow> bool" where
  "is_console (ConsoleLog m) = True"
| "is_console (ConsoleWarn m) = True"
| "is_console e = False"

fun sends :: "effect list \<Rightarrow> (MessagePort \<times> jsvalue) list" where
  "sends [] = []"
| "sends (PortPostMessage p v # es) = (p, v) # sends es"
| "sends (e # es) = sends es"

fun closes :: "effect list \<Rightarrow> MessagePort list" where
  "closes [] = []"
| "closes (PortClose p # es) = p # closes es"
| "closes (e # es) = closes es"

fun invocations :: "effect list \<Rightarrow> (MessageCallback \<times> jsvalue) list" where
  "invocations [] = []"
| "invocations (CallbackInvoked c v # es) = (c, v) # invocations es"
| "invocations (e # es) = invocations es"

subsection \<open>handleMessage\<close>

text \<open>
  \<open>handleMessage\<close> is \<open>this.subscribers.forEach(callback => callback(event.data))\<close>:
  it runs the caller's callbacks, over the live \<open>Set\<close>. A callback is arbitrary code. What
  it can do to the bridge is call its public methods, so a call of a callback is
  described by the method calls it makes, in order, and by how it ends: it returns, it
  throws, or it never ends. What it does may depend on its argument, on the bridge as it
  finds it, and on anything else, which is the state \<open>'w\<close> that the callbacks read and
  update. The getters change nothing and are covered by the dependence on the bridge.
  \<open>capturePort\<close> and \<open>handleMessage\<close> are private and run when the browser dispatches
  an event, one task at a time: no capture and no second delivery starts inside a
  delivery.
\<close>

datatype action =
    CallSubscribe MessageCallback
  | CallUnsubscribe MessageCallback
  | CallSendMessage jsvalue
  | CallDisconnect

datatype callback_end = Returns | Throws jsvalue | Hangs

type_synonym 'w callbacks =
  "MessageCallback \<Rightarrow> jsvalue \<Rightarrow> FlutterBridge \<Rightarrow> 'w \<Rightarrow> action list \<times> callback_end \<times> 'w"

text \<open>
  \<open>Set.prototype.forEach\<close> walks the entries in insertion order and looks at the \<open>Set\<close>
  again after every call: an entry deleted before its turn is skipped, an entry added
  during the walk is appended and visited, and so is an entry deleted and added again.
  The loop therefore carries the entries still to be visited, \<open>todo\<close>, and every method
  call of a callback updates the bridge and \<open>todo\<close> together: \<open>add\<close> of a new entry
  appends it, \<open>delete\<close> removes it, \<open>clear\<close> empties it.
\<close>

fun perform1 ::
  "action \<Rightarrow> FlutterBridge \<times> MessageCallback list \<times> effect list \<Rightarrow>
     FlutterBridge \<times> MessageCallback list \<times> effect list" where
  "perform1 (CallSubscribe c) (b, todo, es) =
     (bridge (subscribe b c),
      (if c \<in> set (entries (subscribers b)) then todo else todo @ [c]),
      es @ effects (subscribe b c))"
| "perform1 (CallUnsubscribe c) (b, todo, es) =
     (bridge (unsubscribe (Unsubscribe c) b), removeAll c todo,
      es @ effects (unsubscribe (Unsubscribe c) b))"
| "perform1 (CallSendMessage v) (b, todo, es) =
     (bridge (sendMessage b v), todo, es @ effects (sendMessage b v))"
| "perform1 CallDisconnect (b, todo, es) =
     (bridge (disconnect b), [], es @ effects (disconnect b))"

fun perform ::
  "action list \<Rightarrow> FlutterBridge \<times> MessageCallback list \<times> effect list \<Rightarrow>
     FlutterBridge \<times> MessageCallback list \<times> effect list" where
  "perform [] s = s"
| "perform (a # as) s = perform as (perform1 a s)"

text \<open>
  The loop. There is no handler around the call of a callback: an exception leaves the
  loop and the method. The walk need not end (every callback may add another one), and a
  callback need not return: then the method does not return, which is the value \<open>None\<close>.
  A result holds the exception, if any, the bridge, the state of the callbacks and the
  effects so far.
\<close>

partial_function (option) forEach ::
  "'w callbacks \<Rightarrow> jsvalue \<Rightarrow> FlutterBridge \<Rightarrow> MessageCallback list \<Rightarrow> 'w \<Rightarrow> effect list \<Rightarrow>
     (js_exception option \<times> FlutterBridge \<times> 'w \<times> effect list) option" where
  "forEach call v b todo w es =
     (case todo of
        [] \<Rightarrow> Some (None, b, w, es)
      | c # rest \<Rightarrow>
          (case call c v b w of
             (acts, fin, w') \<Rightarrow>
               (case perform acts (b, rest, es @ [CallbackInvoked c v]) of
                  (b', rest', es') \<Rightarrow>
                    (case fin of
                       Returns \<Rightarrow> forEach call v b' rest' w' es'
                     | Throws x \<Rightarrow> Some (Some (UserException x), b', w', es')
                     | Hangs \<Rightarrow> None))))"

declare forEach.simps [code]

text \<open>\<open>console.log(message, data || "")\<close> prints the empty string for a falsy payload.\<close>

fun falsy :: "jsvalue \<Rightarrow> bool" where
  "falsy JUndefined = True"
| "falsy JNull = True"
| "falsy (JBool x) = (\<not> x)"
| "falsy (JNum n) = (n = 0)"
| "falsy (JStr s) = (s = [])"
| "falsy v = False"

definition handleMessage ::
  "'w callbacks \<Rightarrow> FlutterBridge \<Rightarrow> MessageEvent \<Rightarrow> 'w \<Rightarrow> (unit outcome \<times> 'w) option" where
  "handleMessage call b ev w =
     (let e1 = log b (LogMessageReceived (if falsy (data ev) then JStr [] else data ev)) in
      case forEach call (data ev) b (entries (subscribers b)) w e1 of
        None \<Rightarrow> None
      | Some (r, b', w', es) \<Rightarrow>
          Some (\<lparr> completion = (case r of None \<Rightarrow> Returned () | Some x \<Rightarrow> Threw x),
                  bridge = b', effects = es \<rparr>, w'))"

text \<open>
  Two ways to read what a delivery returned: the invocations it made, and a property of
  callbacks that the statements below use as a hypothesis. A callback is \<open>quiet\<close> on a
  payload when, whatever the bridge and the state it finds, its call returns and makes no
  method call other than \<open>sendMessage\<close>.
\<close>

definition delivered :: "(unit outcome \<times> 'w) option \<Rightarrow> (MessageCallback \<times> jsvalue) list option" where
  "delivered r = map_option (\<lambda>(out, w). invocations (effects out)) r"



text \<open>
  Callbacks for concrete runs, without a state of their own: \<open>R\<close> lists, for some
  callbacks, the method calls they make and how they end; a callback that is not listed
  does nothing and returns.
\<close>

definition reacting ::
  "(MessageCallback \<times> action list \<times> callback_end) list \<Rightarrow> unit callbacks" where
  "reacting R c v b w =
     (case map_of R c of None \<Rightarrow> ([], Returns, w) | Some (acts, fin) \<Rightarrow> (acts, fin, w))"

section \<open>Basic facts\<close>

subsection \<open>The Set operations on the entries\<close>


lemma set_size_entries: "set_size s = length (entries s)"
  by (rule set_size.rep_eq)

lemma entries_set_new: "entries set_new = []"
  by (rule set_new.rep_eq)

lemma entries_set_add:
  "entries (set_add x s) = (if x \<in> set (entries s) then entries s else entries s @ [x])"
  by (rule set_add.rep_eq)

lemma entries_set_delete: "entries (set_delete x s) = removeAll x (entries s)"
  by (rule set_delete.rep_eq)

lemma JSSet_eqI: "entries s = entries t \<Longrightarrow> s = t"
  by (simp add: entries_inject)


lemma set_delete_absent: "x \<notin> set (entries s) \<Longrightarrow> set_delete x s = s"
  by (rule JSSet_eqI) (simp add: entries_set_delete)

lemma set_delete_idem: "set_delete x (set_delete x s) = set_delete x s"
  by (rule JSSet_eqI) (simp add: entries_set_delete)


subsection \<open>Traces\<close>

lemma sends_append: "sends (xs @ ys) = sends xs @ sends ys"
  by (induction xs rule: sends.induct) simp_all

lemma closes_append: "closes (xs @ ys) = closes xs @ closes ys"
  by (induction xs rule: closes.induct) simp_all



lemma warn_silent:
  "sends (warn b m) = []" "closes (warn b m) = []" "invocations (warn b m) = []"
  "list_all is_console (warn b m)"
  by (simp_all add: warn_def)

subsection \<open>The two outcomes of capturePort\<close>

lemma capturePort_qualifying:
  assumes "data ev = JStr (captureCommand (options b))" and "ports ev = Some (p # ps)"
  shows "capturePort b ev =
     \<lparr> completion = Returned (), bridge = b\<lparr>port := Some p\<rparr>,
       effects =
         (if debug (options b)
          then [ConsoleLog (LogCheckCapture (data ev) True (Suc (length ps))),
                ConsoleLog LogPortCaptured]
          else []) @
         [PortSetOnMessage p, PortPostMessage p (JStr (confirmationMessage (options b)))] @
         (if debug (options b)
          then [ConsoleLog (LogConfirmationSent (confirmationMessage (options b)))]
          else []) \<rparr>"
  using assms by (simp add: capturePort_def postMessage_def log_def portsCount_def Let_def)

lemma capturePort_ignored:
  assumes "\<not> (data ev = JStr (captureCommand (options b)) \<and> (\<exists>p ps. ports ev = Some (p # ps)))"
  shows "capturePort b ev =
     \<lparr> completion = Returned (), bridge = b,
       effects =
         (if debug (options b)
          then [ConsoleLog (LogCheckCapture (data ev) (0 < portsCount ev) (portsCount ev)),
                ConsoleLog LogNotCapture]
          else []) \<rparr>"
  using assms
  by (auto simp add: capturePort_def log_def Let_def split: option.splits list.splits)



lemma isConnected_capturePort_qualifying:
  "data ev = JStr (captureCommand (options b)) \<Longrightarrow> ports ev = Some (p # ps) \<Longrightarrow>
     completion (isConnected (bridge (capturePort b ev))) = Returned True"
  by (simp add: capturePort_qualifying isConnected_def)

subsection \<open>sendMessage, disconnect and subscribe as equations\<close>

lemma sendMessage_no_port:
  assumes "port b = None"
  shows "sendMessage b v =
     \<lparr> completion = Returned (), bridge = b,
       effects =
         (if debug (options b)
          then [ConsoleLog (LogSendAttempt v False), ConsoleWarn WarnPortNotInitialized,
                ConsoleWarn WarnPossibleReasons, ConsoleWarn WarnReasonNoPortYet,
                ConsoleWarn WarnReasonWrongFormat, ConsoleWarn WarnReasonTiming]
          else [ConsoleWarn WarnPortNotInitialized]) \<rparr>"
  using assms by (simp add: sendMessage_def log_def warn_def Let_def)


lemma disconnect_eq:
  "disconnect b =
     \<lparr> completion = Returned (), bridge = b\<lparr>port := None, subscribers := set_new\<rparr>,
       effects = (case port b of None \<Rightarrow> [] | Some p \<Rightarrow> [PortClose p]) @
         (if debug (options b) then [ConsoleLog LogDisconnected] else []) \<rparr>"
  by (cases "port b") (simp_all add: disconnect_def set_clear_def log_def)

lemma subscribe_frame:
  "port (bridge (subscribe b c)) = port b" "options (bridge (subscribe b c)) = options b"
  by (simp_all add: subscribe_def Let_def)


subsection \<open>The loop over the subscribers\<close>

lemma forEach_Nil: "forEach call v b [] w es = Some (None, b, w, es)"
  by (subst forEach.simps) simp

lemma forEach_Cons:
  "forEach call v b (c # rest) w es =
     (case call c v b w of
        (acts, fin, w') \<Rightarrow>
          (case perform acts (b, rest, es @ [CallbackInvoked c v]) of
             (b', rest', es') \<Rightarrow>
               (case fin of
                  Returns \<Rightarrow> forEach call v b' rest' w' es'
                | Throws x \<Rightarrow> Some (Some (UserException x), b', w', es')
                | Hangs \<Rightarrow> None)))"
  by (subst forEach.simps) simp












subsection \<open>The default instance\<close>

lemma flutterBridge_eq:
  "flutterBridge =
     \<lparr> port = None, subscribers = set_new,
       options = \<lparr> debug = False, captureCommand = ''capturePort'',
                   confirmationMessage = ''portReceived'' \<rparr> \<rparr>"
  by (simp add: flutterBridge_def constructor_def merge_options_def Let_def)

lemma flutterBridge_fields:
  "port flutterBridge = None"
  "options flutterBridge =
     \<lparr> debug = False, captureCommand = ''capturePort'', confirmationMessage = ''portReceived'' \<rparr>"
  by (simp_all add: flutterBridge_eq)


lemma connected_10_20:
  "bridge (capturePort (bridge (subscribe (bridge (subscribe flutterBridge 10)) 20))
       \<lparr> data = JStr ''capturePort'', ports = Some [7] \<rparr>) =
     \<lparr> port = Some 7, subscribers = set_add 20 (set_add 10 set_new),
       options = \<lparr> debug = False, captureCommand = ''capturePort'',
                   confirmationMessage = ''portReceived'' \<rparr> \<rparr>"
  by (simp add: capturePort_qualifying subscribe_def Let_def flutterBridge_eq)


lemmas run_simps =
  handleMessage_def delivered_def forEach_Nil forEach_Cons reacting_def log_def warn_def Let_def
  subscribe_def sendMessage_def disconnect_def postMessage_def set_clear_def
  entries_set_add entries_set_new entries_set_delete set_size_entries

section \<open>The handshake\<close>

text \<open>
  Claim C1. A bridge without an active channel reports \<open>isConnected() = false\<close>. When it
  processes a transport event whose payload is exactly the configured \<open>captureCommand\<close>
  and which carries at least one endpoint, the call returns normally, \<open>isConnected()\<close>
  becomes true, the first transferred endpoint is bound as the active channel and gets the
  inbound-message handler, and the trace holds exactly one send: the configured
  \<open>confirmationMessage\<close>, posted on that endpoint.
\<close>

theorem capturePort_handshake:
  assumes "port b = None"
    and "data ev = JStr (captureCommand (options b))"
    and "ports ev = Some (p # ps)"
  shows "completion (isConnected b) = Returned False
       \<and> completion (capturePort b ev) = Returned ()
       \<and> completion (isConnected (bridge (capturePort b ev))) = Returned True
       \<and> port (bridge (capturePort b ev)) = Some p
       \<and> PortSetOnMessage p \<in> set (effects (capturePort b ev))
       \<and> sends (effects (capturePort b ev)) = [(p, JStr (confirmationMessage (options b)))]"
  using assms(1) by (simp add: capturePort_qualifying [OF assms(2,3)] isConnected_def sends_append)

text \<open>
  The default instance receives \<open>{data: "capturePort", ports: [7, 8]}\<close>: it binds port 7
  and posts \<open>"portReceived"\<close> on it.
\<close>

theorem capturePort_handshake_witness:
  "completion (isConnected flutterBridge) = Returned False
   \<and> completion (isConnected (bridge (capturePort flutterBridge
        \<lparr> data = JStr ''capturePort'', ports = Some [7, 8] \<rparr>))) = Returned True
   \<and> port (bridge (capturePort flutterBridge
        \<lparr> data = JStr ''capturePort'', ports = Some [7, 8] \<rparr>)) = Some 7
   \<and> sends (effects (capturePort flutterBridge
        \<lparr> data = JStr ''capturePort'', ports = Some [7, 8] \<rparr>)) = [(7, JStr ''portReceived'')]"
  using capturePort_handshake [of flutterBridge
      "\<lparr> data = JStr ''capturePort'', ports = Some [7, 8] \<rparr>" 7 "[8]"]
  by (simp add: flutterBridge_eq)

section \<open>Fan-out\<close>




section \<open>Sending without a channel\<close>

text \<open>
  Claim C3. For every payload, \<open>sendMessage\<close> on a bridge without an active channel
  returns normally and leaves the bridge (port, registry, options) as it was. Nothing is
  posted; everything it does is written to the console, and the warning that the port is
  not initialised is always among it. With \<open>debug\<close> off that warning is the whole
  trace; with \<open>debug\<close> on, the debug log line and four more warnings surround it.
\<close>

theorem sendMessage_without_port:
  assumes "port b = None"
  shows "completion (sendMessage b v) = Returned ()
       \<and> bridge (sendMessage b v) = b
       \<and> sends (effects (sendMessage b v)) = []
       \<and> list_all is_console (effects (sendMessage b v))
       \<and> ConsoleWarn WarnPortNotInitialized \<in> set (effects (sendMessage b v))
       \<and> effects (sendMessage b v) =
           (if debug (options b)
            then [ConsoleLog (LogSendAttempt v False), ConsoleWarn WarnPortNotInitialized,
                  ConsoleWarn WarnPossibleReasons, ConsoleWarn WarnReasonNoPortYet,
                  ConsoleWarn WarnReasonWrongFormat, ConsoleWarn WarnReasonTiming]
            else [ConsoleWarn WarnPortNotInitialized])"
  by (simp add: sendMessage_no_port [OF assms])

text \<open>
  The default instance is asked to send a function, which no port could transmit: the call
  still returns, with the one warning.
\<close>

theorem sendMessage_without_port_witness:
  "completion (sendMessage flutterBridge (JFun 3)) = Returned ()
   \<and> bridge (sendMessage flutterBridge (JFun 3)) = flutterBridge
   \<and> effects (sendMessage flutterBridge (JFun 3)) = [ConsoleWarn WarnPortNotInitialized]"
  using sendMessage_without_port [of flutterBridge "JFun 3"]
  by (simp add: flutterBridge_eq)

section \<open>Disconnecting\<close>

text \<open>
  Claim C4. For every bridge, \<open>disconnect()\<close> returns normally, and right after it
  \<open>isConnected()\<close> is false and \<open>getConnectionStatus()\<close> is
  \<open>{hasPort: false, subscribersCount: 0}\<close>: the port is set to none (and was closed if
  there was one), the registry is empty whatever it held. A \<open>sendMessage\<close> that follows
  returns normally, posts nothing and issues the warning that the port is not initialised.
\<close>

theorem disconnect_resets:
  "completion (disconnect b) = Returned ()
   \<and> completion (isConnected (bridge (disconnect b))) = Returned False
   \<and> completion (getConnectionStatus (bridge (disconnect b))) =
       Returned \<lparr> hasPort = False, subscribersCount = 0 \<rparr>
   \<and> port (bridge (disconnect b)) = None
   \<and> subscribers (bridge (disconnect b)) = set_new
   \<and> closes (effects (disconnect b)) = (case port b of None \<Rightarrow> [] | Some p \<Rightarrow> [p])
   \<and> completion (sendMessage (bridge (disconnect b)) v) = Returned ()
   \<and> ConsoleWarn WarnPortNotInitialized \<in> set (effects (sendMessage (bridge (disconnect b)) v))
   \<and> sends (effects (sendMessage (bridge (disconnect b)) v)) = []"
  by (simp add: disconnect_eq isConnected_def getConnectionStatus_def set_size_entries
      entries_set_new sendMessage_no_port closes_append split: option.splits)

text \<open>
  A connected bridge with two subscribers: the status goes from
  \<open>{hasPort: true, subscribersCount: 2}\<close> to \<open>{hasPort: false, subscribersCount: 0}\<close>, and
  port 7 is closed.
\<close>

theorem disconnect_resets_witness:
  "completion (getConnectionStatus (bridge (capturePort
       (bridge (subscribe (bridge (subscribe flutterBridge 10)) 20))
       \<lparr> data = JStr ''capturePort'', ports = Some [7] \<rparr>))) =
     Returned \<lparr> hasPort = True, subscribersCount = 2 \<rparr>
   \<and> completion (getConnectionStatus (bridge (disconnect (bridge (capturePort
       (bridge (subscribe (bridge (subscribe flutterBridge 10)) 20))
       \<lparr> data = JStr ''capturePort'', ports = Some [7] \<rparr>))))) =
     Returned \<lparr> hasPort = False, subscribersCount = 0 \<rparr>
   \<and> closes (effects (disconnect (bridge (capturePort
       (bridge (subscribe (bridge (subscribe flutterBridge 10)) 20))
       \<lparr> data = JStr ''capturePort'', ports = Some [7] \<rparr>)))) = [7]"
  using disconnect_resets [of "bridge (capturePort
       (bridge (subscribe (bridge (subscribe flutterBridge 10)) 20))
       \<lparr> data = JStr ''capturePort'', ports = Some [7] \<rparr>)" JNull]
  by (simp add: capturePort_qualifying subscribe_def Let_def flutterBridge_eq
      getConnectionStatus_def set_size_entries entries_set_add entries_set_new)

section \<open>Unsubscribing twice\<close>

text \<open>
  Claim C5. \<open>subscribe(callback)\<close> returns the capability for that callback, and the
  callback is then registered. The first call of the capability returns normally and
  removes exactly that callback: the other entries stay, in their order, and the port is
  untouched. A second call returns normally and leaves the bridge exactly as the first
  call left it. More generally, in any state in which the callback is not registered, a
  call of the capability returns normally and changes nothing.
\<close>

theorem unsubscribe_idempotent:
  "completion (subscribe b c) = Returned (Unsubscribe c)
   \<and> c \<in> set (entries (subscribers (bridge (subscribe b c))))
   \<and> completion (unsubscribe (Unsubscribe c) (bridge (subscribe b c))) = Returned ()
   \<and> entries (subscribers (bridge (unsubscribe (Unsubscribe c) (bridge (subscribe b c))))) =
       removeAll c (entries (subscribers b))
   \<and> c \<notin> set (entries (subscribers (bridge (unsubscribe (Unsubscribe c) (bridge (subscribe b c))))))
   \<and> port (bridge (unsubscribe (Unsubscribe c) (bridge (subscribe b c)))) = port b
   \<and> completion (unsubscribe (Unsubscribe c)
         (bridge (unsubscribe (Unsubscribe c) (bridge (subscribe b c))))) = Returned ()
   \<and> bridge (unsubscribe (Unsubscribe c)
         (bridge (unsubscribe (Unsubscribe c) (bridge (subscribe b c))))) =
       bridge (unsubscribe (Unsubscribe c) (bridge (subscribe b c)))
   \<and> (c \<notin> set (entries (subscribers b')) \<longrightarrow>
        completion (unsubscribe (Unsubscribe c) b') = Returned ()
        \<and> bridge (unsubscribe (Unsubscribe c) b') = b')"
  by (simp add: subscribe_def Let_def entries_set_add entries_set_delete set_delete_idem
      set_delete_absent)

text \<open>
  Subscribers 10 and 20; the capability of 20 is called twice, and then once on a bridge
  that never held 20.
\<close>

theorem unsubscribe_idempotent_witness:
  "entries (subscribers (bridge (subscribe (bridge (subscribe flutterBridge 10)) 20))) = [10, 20]
   \<and> entries (subscribers (bridge (unsubscribe (Unsubscribe 20)
        (bridge (subscribe (bridge (subscribe flutterBridge 10)) 20))))) = [10]
   \<and> entries (subscribers (bridge (unsubscribe (Unsubscribe 20)
        (bridge (unsubscribe (Unsubscribe 20)
          (bridge (subscribe (bridge (subscribe flutterBridge 10)) 20))))))) = [10]
   \<and> bridge (unsubscribe (Unsubscribe 20) flutterBridge) = flutterBridge"
  using unsubscribe_idempotent [of "bridge (subscribe flutterBridge 10)" 20 flutterBridge]
  by (simp add: subscribe_def Let_def flutterBridge_eq entries_set_add entries_set_new)

section \<open>Events that are not a handshake\<close>

text \<open>
  Claim C6. An event that does not both carry the configured \<open>captureCommand\<close> as its
  payload and at least one endpoint is ignored: this covers the right command with no
  endpoint (an empty or a missing \<open>ports\<close> array) and endpoints with a payload that differs
  from the command. The call returns normally, the bridge afterwards is the bridge before
  (port, registry and options, hence \<open>isConnected()\<close> too), nothing is posted, and the
  only effects are the console lines of debug mode.
\<close>

theorem capturePort_ignores:
  assumes "\<not> (data ev = JStr (captureCommand (options b)) \<and> (\<exists>p ps. ports ev = Some (p # ps)))"
  shows "completion (capturePort b ev) = Returned ()
       \<and> bridge (capturePort b ev) = b
       \<and> completion (isConnected (bridge (capturePort b ev))) = completion (isConnected b)
       \<and> sends (effects (capturePort b ev)) = []
       \<and> list_all is_console (effects (capturePort b ev))"
  by (simp add: capturePort_ignored [OF assms])

text \<open>
  The default instance ignores the right command with an empty \<open>ports\<close> array, the right
  command without a \<open>ports\<close> array, and the payload \<open>"hello"\<close> with a port.
\<close>

theorem capturePort_ignores_witness:
  "bridge (capturePort flutterBridge \<lparr> data = JStr ''capturePort'', ports = Some [] \<rparr>) =
     flutterBridge
   \<and> effects (capturePort flutterBridge \<lparr> data = JStr ''capturePort'', ports = Some [] \<rparr>) = []
   \<and> bridge (capturePort flutterBridge \<lparr> data = JStr ''capturePort'', ports = None \<rparr>) =
     flutterBridge
   \<and> bridge (capturePort flutterBridge \<lparr> data = JStr ''hello'', ports = Some [7] \<rparr>) =
     flutterBridge
   \<and> sends (effects (capturePort flutterBridge \<lparr> data = JStr ''hello'', ports = Some [7] \<rparr>)) = []"
  using capturePort_ignores [of "\<lparr> data = JStr ''capturePort'', ports = Some [] \<rparr>" flutterBridge]
    capturePort_ignores [of "\<lparr> data = JStr ''capturePort'', ports = None \<rparr>" flutterBridge]
    capturePort_ignores [of "\<lparr> data = JStr ''hello'', ports = Some [7] \<rparr>" flutterBridge]
  by (simp add: flutterBridge_eq capturePort_def Let_def log_def)

section \<open>Registering a callback again\<close>




section \<open>A second handshake\<close>

text \<open>
  Claim C8. When a qualifying handshake event is processed while an endpoint is already
  bound, the call returns normally, the bound endpoint becomes the first endpoint of the
  new event, no endpoint is closed, the confirmation is posted once, on the new endpoint,
  and the bridge is connected; the registry is as before.
\<close>

theorem capturePort_overwrites:
  assumes "port b = Some q"
    and "data ev = JStr (captureCommand (options b))"
    and "ports ev = Some (p # ps)"
  shows "completion (capturePort b ev) = Returned ()
       \<and> port (bridge (capturePort b ev)) = Some p
       \<and> closes (effects (capturePort b ev)) = []
       \<and> sends (effects (capturePort b ev)) = [(p, JStr (confirmationMessage (options b)))]
       \<and> completion (isConnected (bridge (capturePort b ev))) = Returned True
       \<and> subscribers (bridge (capturePort b ev)) = subscribers b"
  by (simp add: capturePort_qualifying [OF assms(2,3)] isConnected_def sends_append closes_append)

text \<open>
  The default instance captures port 7 and then port 9: it holds 9, port 7 was not closed,
  and \<open>"portReceived"\<close> went to 9.
\<close>

theorem capturePort_overwrites_witness:
  "port (bridge (capturePort flutterBridge \<lparr> data = JStr ''capturePort'', ports = Some [7] \<rparr>)) =
     Some 7
   \<and> port (bridge (capturePort
        (bridge (capturePort flutterBridge \<lparr> data = JStr ''capturePort'', ports = Some [7] \<rparr>))
        \<lparr> data = JStr ''capturePort'', ports = Some [9] \<rparr>)) = Some 9
   \<and> closes (effects (capturePort
        (bridge (capturePort flutterBridge \<lparr> data = JStr ''capturePort'', ports = Some [7] \<rparr>))
        \<lparr> data = JStr ''capturePort'', ports = Some [9] \<rparr>)) = []
   \<and> sends (effects (capturePort
        (bridge (capturePort flutterBridge \<lparr> data = JStr ''capturePort'', ports = Some [7] \<rparr>))
        \<lparr> data = JStr ''capturePort'', ports = Some [9] \<rparr>)) = [(9, JStr ''portReceived'')]"
  using capturePort_overwrites [of
      "bridge (capturePort flutterBridge \<lparr> data = JStr ''capturePort'', ports = Some [7] \<rparr>)" 7
      "\<lparr> data = JStr ''capturePort'', ports = Some [9] \<rparr>" 9 "[]"]
  by (simp add: capturePort_qualifying flutterBridge_eq)

section \<open>Disconnecting twice\<close>

text \<open>
  Claim C9. \<open>disconnect()\<close> on a bridge without an active channel returns normally,
  closes nothing and still empties the registry. For every bridge, a second
  \<open>disconnect()\<close> right after the first returns normally, closes nothing, and leaves the
  state exactly as the first left it: no port, empty registry.
\<close>

theorem disconnect_idempotent:
  "(port b = None \<longrightarrow>
      completion (disconnect b) = Returned ()
      \<and> closes (effects (disconnect b)) = []
      \<and> port (bridge (disconnect b)) = None
      \<and> subscribers (bridge (disconnect b)) = set_new)
   \<and> completion (disconnect (bridge (disconnect b))) = Returned ()
   \<and> bridge (disconnect (bridge (disconnect b))) = bridge (disconnect b)
   \<and> port (bridge (disconnect (bridge (disconnect b)))) = None
   \<and> subscribers (bridge (disconnect (bridge (disconnect b)))) = set_new
   \<and> closes (effects (disconnect (bridge (disconnect b)))) = []"
  by (simp add: disconnect_eq closes_append)

text \<open>A bridge that never connected, with one subscriber, is disconnected twice.\<close>

theorem disconnect_idempotent_witness:
  "port (bridge (subscribe flutterBridge 10)) = None
   \<and> entries (subscribers (bridge (subscribe flutterBridge 10))) = [10]
   \<and> completion (disconnect (bridge (subscribe flutterBridge 10))) = Returned ()
   \<and> subscribers (bridge (disconnect (bridge (subscribe flutterBridge 10)))) = set_new
   \<and> bridge (disconnect (bridge (disconnect (bridge (subscribe flutterBridge 10))))) =
       bridge (disconnect (bridge (subscribe flutterBridge 10)))"
  using disconnect_idempotent [of "bridge (subscribe flutterBridge 10)"]
  by (simp add: subscribe_def Let_def flutterBridge_eq entries_set_add entries_set_new)

section \<open>What the operations leave alone\<close>




section \<open>The scenario of the specification\<close>

text \<open>
  A bridge with the default options and two subscribers that do nothing receives the
  handshake with port 7, confirms on port 7, fans the message \<open>{type: "x"}\<close> out to both
  subscribers, and after \<open>disconnect()\<close> reports \<open>{hasPort: false, subscribersCount: 0}\<close>.
\<close>

lemma scenario:
  "sends (effects (capturePort (bridge (subscribe (bridge (subscribe flutterBridge 10)) 20))
       \<lparr> data = JStr ''capturePort'', ports = Some [7] \<rparr>)) = [(7, JStr ''portReceived'')]
   \<and> delivered (handleMessage (reacting [])
       (bridge (capturePort (bridge (subscribe (bridge (subscribe flutterBridge 10)) 20))
         \<lparr> data = JStr ''capturePort'', ports = Some [7] \<rparr>))
       \<lparr> data = JObj [(''type'', JStr ''x'')], ports = Some [] \<rparr> ()) =
     Some [(10, JObj [(''type'', JStr ''x'')]), (20, JObj [(''type'', JStr ''x'')])]
   \<and> completion (isConnected (bridge (disconnect
       (bridge (capturePort (bridge (subscribe (bridge (subscribe flutterBridge 10)) 20))
         \<lparr> data = JStr ''capturePort'', ports = Some [7] \<rparr>))))) = Returned False
   \<and> completion (getConnectionStatus (bridge (disconnect
       (bridge (capturePort (bridge (subscribe (bridge (subscribe flutterBridge 10)) 20))
         \<lparr> data = JStr ''capturePort'', ports = Some [7] \<rparr>))))) =
     Returned \<lparr> hasPort = False, subscribersCount = 0 \<rparr>"
  by (simp only: connected_10_20)
    (simp add: capturePort_qualifying subscribe_frame flutterBridge_fields
      sends_append isConnected_def getConnectionStatus_def run_simps)

end
